theory Spec2Isabelle
  imports Main
begin

section \<open>Simple RAG emigration service (railway-deployment/main.py)\<close>

text \<open>
  The service keeps five module-level variables (the model handle \<open>embedder\<close>, the FAISS
  \<open>index\<close>, the lists \<open>documents\<close> and \<open>metadata\<close>, and \<open>loading_error\<close>),
  fills them once in \<open>initialize_simple_rag\<close> and reads them in the handler
  \<open>retrieve_context\<close>. Both functions are embedded below as functions on a record of these
  variables. Exceptions are values of type \<open>exn\<close>; a function that may raise returns
  \<open>exn + 'a\<close> with \<open>Inl\<close> for the exception.
\<close>

subsection \<open>Python values: exceptions, dictionaries, list indexing\<close>

datatype exn =
    KeyError string
  | IndexError string
  | AssertionError string
  | LibraryError string

text \<open>\<open>str(e)\<close>: a \<open>KeyError\<close> prints the repr of its key, the others their message.\<close>

fun str :: "exn \<Rightarrow> string" where
  "str (KeyError k) = [CHR 0x27] @ k @ [CHR 0x27]"
| "str (IndexError m) = m"
| "str (AssertionError m) = m"
| "str (LibraryError m) = m"

text \<open>
  A document is a Python dict with string keys and string values, written as a literal
  with distinct keys: an association list read with \<open>map_of\<close>.
\<close>

type_synonym document = "(string \<times> string) list"

text \<open>\<open>doc[key]\<close> raises \<open>KeyError\<close> on a missing key; \<open>doc.get(key)\<close> gives \<open>None\<close>.\<close>

definition dict_getitem :: "document \<Rightarrow> string \<Rightarrow> exn + string" where
  "dict_getitem doc key =
     (case map_of doc key of None \<Rightarrow> Inl (KeyError key) | Some v \<Rightarrow> Inr v)"

definition dict_get :: "document \<Rightarrow> string \<Rightarrow> string option" where
  "dict_get doc key = map_of doc key"

text \<open>
  \<open>xs[i]\<close> with a Python integer: a negative index counts from the end, and an index
  outside \<open>-len(xs) .. len(xs) - 1\<close> raises \<open>IndexError\<close>.
\<close>

definition list_getitem :: "'a list \<Rightarrow> int \<Rightarrow> exn + 'a" where
  "list_getitem xs i =
     (if 0 \<le> i \<and> i < int (length xs) then Inr (xs ! nat i)
      else if i < 0 \<and> - int (length xs) \<le> i then Inr (xs ! nat (int (length xs) + i))
      else Inl (IndexError ''list index out of range''))"

text \<open>Decimal printing of an integer, as an f-string does for \<open>{idx}\<close>.\<close>

fun str_nat :: "nat \<Rightarrow> string" where
  "str_nat n =
     (if n < 10 then [char_of (48 + n)]
      else str_nat (n div 10) @ [char_of (48 + n mod 10)])"

definition str_int :: "int \<Rightarrow> string" where
  "str_int i = (if i < 0 then CHR ''-'' # str_nat (nat (- i)) else str_nat (nat i))"

subsection \<open>The corpus: \<open>get_emigration_documents\<close>\<close>

text \<open>
  The eight literal documents of the source. The only non-ASCII character of the literals
  is the euro sign, written here as its three UTF-8 bytes; nothing in the program looks
  inside a content string.
\<close>

definition euro :: string where
  "euro = [CHR 0xE2, CHR 0x82, CHR 0xAC]"

definition get_emigration_documents :: "document list" where
  "get_emigration_documents =
  [
      [(''content'', ''Portugal D7 visa requirements for US citizens include proof of accommodation, health insurance covering at least '' @ euro @ ''30,000, and sufficient funds of approximately '' @ euro @ ''7,200 annually ('' @ euro @ ''600/month). The application process typically takes 60-90 days through Portuguese consulates. Required documents include passport, background check, proof of income, accommodation contract, and health insurance. The D7 visa is renewable and leads to permanent residency after 5 years.''),
       (''source'', ''Portugal Immigration Authority 2024''),
       (''country'', ''Portugal''),
       (''category'', ''visa_requirements'')],
      [(''content'', ''Cost of living in Lisbon, Portugal: One-bedroom apartments range from '' @ euro @ ''700-1,400/month in central areas, with utilities averaging '' @ euro @ ''80-120/month. Groceries cost 30-40% less than major US cities. Public transportation is '' @ euro @ ''40/month. Restaurant meals range from '' @ euro @ ''8-15 for casual dining. Internet costs '' @ euro @ ''25-40/month for high-speed connections.''),
       (''source'', ''Lisbon Cost Analysis 2024''),
       (''country'', ''Portugal''),
       (''category'', ''cost_of_living'')],
      [(''content'', ''Spain digital nomad visa allows remote workers to live in Spain while working for foreign companies. Minimum income requirement is '' @ euro @ ''2,000/month. Visa valid for up to 5 years. Required documents include employment contract, proof of income, health insurance, and criminal background check. Processing time is 15-45 days.''),
       (''source'', ''Spain Immigration 2024''),
       (''country'', ''Spain''),
       (''category'', ''visa_requirements'')],
      [(''content'', ''Mexico Temporary Resident Visa for US citizens requires proof of income ($1,620/month) or bank balance ($27,000). Valid for up to 4 years, renewable. Can lead to permanent residency. Processing through Mexican consulates takes 10-20 business days. Health insurance not mandatory but recommended.''),
       (''source'', ''Mexico Immigration 2024''),
       (''country'', ''Mexico''),
       (''category'', ''visa_requirements'')],
      [(''content'', ''Germany EU Blue Card for highly skilled workers requires university degree and job offer with salary '' @ euro @ ''56,400+ ('' @ euro @ ''43,992 for shortage occupations). Valid for 4 years, leads to permanent residency after 21 months with B1 German or 33 months with A1 German. Family reunification allowed immediately.''),
       (''source'', ''Germany Immigration 2024''),
       (''country'', ''Germany''),
       (''category'', ''visa_requirements'')],
      [(''content'', ''Canada Express Entry system for skilled workers uses Comprehensive Ranking System (CRS). Minimum scores vary (typically 470-490). Requires language tests, education assessment, and proof of funds ($13,310 for single applicant). Processing time 6 months. Provincial Nominee Programs offer additional pathways.''),
       (''source'', ''Immigration Canada 2024''),
       (''country'', ''Canada''),
       (''category'', ''visa_requirements'')],
      [(''content'', ''Australia skilled migration requires occupation on skilled occupation list, skills assessment, and English proficiency. SkillSelect system uses points test. Minimum investment $2,500 AUD application fee plus health exams. Processing 8-12 months. Regional visas available with lower requirements.''),
       (''source'', ''Australia Immigration 2024''),
       (''country'', ''Australia''),
       (''category'', ''visa_requirements'')],
      [(''content'', ''Costa Rica Pensionado program requires $1,000/month guaranteed pension income. Provides path to permanent residency with benefits including tax exemptions on foreign income, duty-free import of household goods, and reduced healthcare costs. Application through Costa Rican consulates takes 6-12 months.''),
       (''source'', ''Costa Rica Immigration 2024''),
       (''country'', ''Costa Rica''),
       (''category'', ''visa_requirements'')]
    ]"

subsection \<open>External collaborators\<close>

text \<open>
  The sentence-transformers model, NumPy, FAISS and the clock are libraries, not code of
  the service. A NumPy 2-D float array is a list of rows over an uninterpreted type
  \<open>'f\<close> of floats; the service never computes on a float itself.
\<close>

text \<open>
  Modelled from the spec: the class \<open>faiss.IndexFlatIP\<close> and its method \<open>add\<close> are
  not part of the repository. The specification describes the index as an ordered
  collection of vectors of one fixed dimension, created empty and populated by \<open>add\<close>
  in the order given, where a vector of another dimension is refused. The record holds
  the dimension and the rows added so far; \<open>ntotal\<close> is their number.
\<close>

record 'f faiss_index =
  dimension :: nat
  vectors :: "'f list list"

definition ntotal :: "'f faiss_index \<Rightarrow> nat" where
  "ntotal ix = length (vectors ix)"

text \<open>
  \<open>a.shape[1]\<close>: the row length of a 2-D array; \<open>encode([])\<close> gives a 1-D empty
  array, whose shape has no second component.
\<close>

definition shape1 :: "'f list list \<Rightarrow> exn + nat" where
  "shape1 a =
     (case a of [] \<Rightarrow> Inl (IndexError ''tuple index out of range'')
      | row # _ \<Rightarrow> Inr (length row))"

text \<open>
  Modelled from the spec: the constructor \<open>faiss.IndexFlatIP(d)\<close> gives the empty index
  of dimension \<open>d\<close>, and \<open>index.add(x)\<close> appends the rows of \<open>x\<close> when \<open>x\<close> has the
  index's dimension and raises otherwise.
\<close>

definition IndexFlatIP :: "nat \<Rightarrow> 'f faiss_index" where
  "IndexFlatIP d = \<lparr>dimension = d, vectors = []\<rparr>"

definition add :: "'f faiss_index \<Rightarrow> 'f list list \<Rightarrow> exn + 'f faiss_index" where
  "add ix x =
     (if shape1 x = Inr (dimension ix) then Inr (ix\<lparr>vectors := vectors ix @ x\<rparr>)
      else Inl (AssertionError []))"

text \<open>
  What the libraries compute is a parameter of the model:
  \<^item> \<open>SentenceTransformer name\<close> loads the model or raises;
  \<open>encode m texts\<close> is \<open>m.encode(texts)\<close>;
  \<^item> \<open>normalize_L2 a\<close> is the array after the in-place \<open>faiss.normalize_L2(a)\<close>;
  \<^item> \<open>search ix q k\<close> is \<open>ix.search(q, k)\<close>: the pair of the score rows and the
    label rows, one row for each row of \<open>q\<close>;
  \<^item> \<open>MODEL_NAME\<close> is the configuration value read from the process environment and
    \<open>processing_time\<close> the milliseconds between the handler's two clock readings.
\<close>

record ('m, 'f) libs =
  SentenceTransformer :: "string \<Rightarrow> exn + 'm"
  encode :: "'m \<Rightarrow> string list \<Rightarrow> exn + 'f list list"
  normalize_L2 :: "'f list list \<Rightarrow> exn + 'f list list"
  search :: "'f faiss_index \<Rightarrow> 'f list list \<Rightarrow> int \<Rightarrow> exn + ('f list list \<times> int list list)"
  MODEL_NAME :: string
  processing_time :: int

subsection \<open>Module state and \<open>initialize_simple_rag\<close>\<close>

record ('m, 'f) globals =
  embedder :: "'m option"
  index :: "'f faiss_index option"
  documents :: "document list"
  metadata :: "document list"
  loading_error :: "string option"

definition initial_globals :: "('m, 'f) globals" where
  "initial_globals =
     \<lparr>embedder = None, index = None, documents = [], metadata = [], loading_error = None\<rparr>"

text \<open>\<open>[doc["content"] for doc in documents]\<close>: the first missing key raises.\<close>

fun contents :: "document list \<Rightarrow> exn + string list" where
  "contents [] = Inr []"
| "contents (doc # docs) =
     (case dict_getitem doc ''content'' of
        Inl e \<Rightarrow> Inl e
      | Inr c \<Rightarrow> (case contents docs of Inl e \<Rightarrow> Inl e | Inr cs \<Rightarrow> Inr (c # cs)))"

text \<open>The handler \<open>except Exception as e: loading_error = str(e)\<close>.\<close>

definition init_failed :: "('m, 'f) globals \<Rightarrow> exn \<Rightarrow> ('m, 'f) globals" where
  "init_failed g e = g\<lparr>loading_error := Some (str e)\<rparr>"

text \<open>
  Each assignment to a global takes effect when it is executed, so an exception leaves
  the globals assigned before it in place.
\<close>

definition initialize_simple_rag :: "('m, 'f) libs \<Rightarrow> ('m, 'f) globals \<Rightarrow> ('m, 'f) globals" where
  "initialize_simple_rag L g =
     (case SentenceTransformer L (MODEL_NAME L) of
        Inl e \<Rightarrow> init_failed g e
      | Inr m \<Rightarrow>
     (let g1 = g\<lparr>embedder := Some m\<rparr>;
          g2 = g1\<lparr>documents := get_emigration_documents\<rparr>
      in
     (case contents (documents g2) of
        Inl e \<Rightarrow> init_failed g2 e
      | Inr texts \<Rightarrow>
     (case encode L m texts of
        Inl e \<Rightarrow> init_failed g2 e
      | Inr doc_embeddings \<Rightarrow>
     (case shape1 doc_embeddings of
        Inl e \<Rightarrow> init_failed g2 e
      | Inr dim \<Rightarrow>
     (let g3 = g2\<lparr>index := Some (IndexFlatIP dim)\<rparr>
      in
     (case normalize_L2 L doc_embeddings of
        Inl e \<Rightarrow> init_failed g3 e
      | Inr normalized \<Rightarrow>
     (case add (IndexFlatIP dim) normalized of
        Inl e \<Rightarrow> init_failed g3 e
      | Inr ix \<Rightarrow>
     (let g4 = g3\<lparr>index := Some ix\<rparr>
      in g4\<lparr>metadata := documents g4\<rparr>)))))))))"

subsection \<open>Request and response models\<close>

text \<open>
  \<open>RAGQuery\<close>: an omitted \<open>country\<close> is \<open>None\<close>, an omitted \<open>category\<close> is
  \<open>"general"\<close>, an omitted \<open>max_results\<close> is 5; each may also be sent as null.
\<close>

record RAGQuery =
  query :: string
  country :: "string option"
  category :: "string option"
  max_results :: "int option"

text \<open>The \<open>metadata\<close> dict of a result, with its four fixed keys.\<close>

record result_metadata =
  country :: "string option"
  category :: "string option"
  rank :: nat
  document_index :: int

record 'f RAGResult =
  content :: string
  source :: string
  relevance_score :: 'f
  metadata :: result_metadata

record 'f RAGResponse =
  results :: "'f RAGResult list"
  query :: string
  total_results :: nat
  processing_time_ms :: int

datatype http_error = HTTPException nat string

subsection \<open>\<open>retrieve_context\<close>\<close>

text \<open>\<open>s.replace('_', ' ')\<close>.\<close>

definition replace_underscores :: "string \<Rightarrow> string" where
  "replace_underscores s = map (\<lambda>c. if c = CHR ''_'' then CHR '' '' else c) s"

text \<open>
  Lines 193 to 197. A Python \<open>Optional[str]\<close> is truthy when it is neither \<open>None\<close>
  nor the empty string.
\<close>

definition truthy :: "string option \<Rightarrow> bool" where
  "truthy s = (case s of None \<Rightarrow> False | Some v \<Rightarrow> v \<noteq> [])"

definition enhanced_query :: "RAGQuery \<Rightarrow> string" where
  "enhanced_query request =
     (let q0 = RAGQuery.query request;
          q1 = (if truthy (RAGQuery.country request)
                then q0 @ '' '' @ the (RAGQuery.country request) else q0);
          q2 = (if truthy (RAGQuery.category request) \<and> RAGQuery.category request \<noteq> Some ''general''
                then q1 @ '' '' @ replace_underscores (the (RAGQuery.category request)) else q1)
      in q2)"

text \<open>\<open>request.max_results or 5\<close>: \<open>None\<close> and 0 are falsy.\<close>

definition max_results_or_5 :: "RAGQuery \<Rightarrow> int" where
  "max_results_or_5 request =
     (case max_results request of None \<Rightarrow> 5 | Some n \<Rightarrow> if n = 0 then 5 else n)"

text \<open>
  The loop of lines 208 to 222 over \<open>enumerate(zip(scores[0], indices[0]))\<close>; \<open>i\<close> is
  the position in the zipped list, also of the pairs that the test \<open>idx < len(metadata)\<close>
  skips.
\<close>

fun format_results :: "document list \<Rightarrow> nat \<Rightarrow> ('f \<times> int) list \<Rightarrow> exn + 'f RAGResult list" where
  "format_results md i [] = Inr []"
| "format_results md i ((score, idx) # rest) =
     (if idx < int (length md) then
        (case list_getitem md idx of
           Inl e \<Rightarrow> Inl e
         | Inr doc \<Rightarrow>
        (case dict_getitem doc ''content'' of
           Inl e \<Rightarrow> Inl e
         | Inr c \<Rightarrow>
        (case format_results md (i + 1) rest of
           Inl e \<Rightarrow> Inl e
         | Inr rs \<Rightarrow>
             Inr (\<lparr>content = c,
                   source = (case dict_get doc ''source'' of
                               None \<Rightarrow> ''Document '' @ str_int idx | Some s \<Rightarrow> s),
                   relevance_score = score,
                   metadata = \<lparr>country = dict_get doc ''country'',
                                category = dict_get doc ''category'',
                                rank = i + 1,
                                document_index = idx\<rparr>\<rparr> # rs))))
      else format_results md (i + 1) rest)"

text \<open>The body of the \<open>try\<close> block, lines 192 to 231.\<close>

definition retrieve_body ::
  "('m, 'f) libs \<Rightarrow> ('m, 'f) globals \<Rightarrow> 'm \<Rightarrow> 'f faiss_index \<Rightarrow> RAGQuery \<Rightarrow> exn + 'f RAGResponse" where
  "retrieve_body L g m ix request =
     (case encode L m [enhanced_query request] of
        Inl e \<Rightarrow> Inl e
      | Inr query_embedding \<Rightarrow>
     (case normalize_L2 L query_embedding of
        Inl e \<Rightarrow> Inl e
      | Inr normalized \<Rightarrow>
     (let k = min (max_results_or_5 request) (int (length (documents g)))
      in
     (case search L ix normalized k of
        Inl e \<Rightarrow> Inl e
      | Inr (scores, indices) \<Rightarrow>
     (case list_getitem scores 0 of
        Inl e \<Rightarrow> Inl e
      | Inr scores0 \<Rightarrow>
     (case list_getitem indices 0 of
        Inl e \<Rightarrow> Inl e
      | Inr indices0 \<Rightarrow>
     (case format_results (globals.metadata g) 0 (zip scores0 indices0) of
        Inl e \<Rightarrow> Inl e
      | Inr rs \<Rightarrow>
          Inr \<lparr>results = rs,
               query = RAGQuery.query request,
               total_results = length rs,
               processing_time_ms = processing_time L\<rparr>)))))))"

text \<open>
  The handler: the readiness test of line 183 comes before the \<open>try\<close>; any exception
  inside the \<open>try\<close> becomes status 500. \<open>f"{loading_error}"\<close> prints \<open>None\<close> as the
  text \<open>None\<close>. A loaded model and an index object are truthy, so \<open>not embedder\<close>
  and \<open>not index\<close> test for \<open>None\<close>. The API-key dependency is resolved by the
  framework before the handler is entered and is not part of the function.
\<close>

definition retrieve_context ::
  "('m, 'f) libs \<Rightarrow> ('m, 'f) globals \<Rightarrow> RAGQuery \<Rightarrow> http_error + 'f RAGResponse" where
  "retrieve_context L g request =
     (case (embedder g, index g) of
        (Some m, Some ix) \<Rightarrow>
          (case retrieve_body L g m ix request of
             Inl e \<Rightarrow> Inl (HTTPException 500 (''Search failed: '' @ str e))
           | Inr response \<Rightarrow> Inr response)
      | _ \<Rightarrow>
          Inl (HTTPException 503
                 (''Simple RAG not initialized: '' @
                  (case loading_error g of None \<Rightarrow> ''None'' | Some msg \<Rightarrow> msg))))"

subsection \<open>What the libraries guarantee\<close>

text \<open>
  The properties of the libraries that the theorems below rely on, each as a predicate on
  the library parameter.
  \<^item> \<open>encode\<close> returns one row for each text, and all rows a model produces have the
    same length.
  \<^item> \<open>normalize_L2\<close> rescales in place: the shape of the array is unchanged.
  \<^item> \<open>search\<close> with \<open>0 < k \<le> ntotal\<close> and queries of the index's dimension returns,
    for each query row, \<open>k\<close> scores and \<open>k\<close> labels that are positions of stored vectors.
\<close>

definition encode_rows :: "('m, 'f) libs \<Rightarrow> bool" where
  "encode_rows L \<longleftrightarrow>
     (\<forall>m. \<exists>D. \<forall>texts a. encode L m texts = Inr a \<longrightarrow>
        length a = length texts \<and> (\<forall>row \<in> set a. length row = D))"

definition normalize_keeps_shape :: "('m, 'f) libs \<Rightarrow> bool" where
  "normalize_keeps_shape L \<longleftrightarrow>
     (\<forall>a b. normalize_L2 L a = Inr b \<longrightarrow> map length b = map length a)"

definition search_returns_k :: "('m, 'f) libs \<Rightarrow> bool" where
  "search_returns_k L \<longleftrightarrow>
     (\<forall>ix q k. 0 < k \<longrightarrow> k \<le> int (ntotal ix) \<longrightarrow> shape1 q = Inr (dimension ix) \<longrightarrow>
        (\<exists>scores labels. search L ix q k = Inr (scores, labels) \<and>
           length scores = length q \<and> length labels = length q \<and>
           (\<forall>row \<in> set scores. length row = nat k) \<and>
           (\<forall>row \<in> set labels. length row = nat k \<and>
              (\<forall>l \<in> set row. 0 \<le> l \<and> l < int (ntotal ix)))))"

text \<open>
  A successful build: the globals are those left by \<open>initialize_simple_rag\<close> run on
  the initial globals, and no error was recorded. \<open>query_embeds\<close> says that the model
  and the normaliser return for the request's enhanced query.
\<close>

definition built :: "('m, 'f) libs \<Rightarrow> ('m, 'f) globals \<Rightarrow> bool" where
  "built L g \<longleftrightarrow> g = initialize_simple_rag L initial_globals \<and> loading_error g = None"

definition query_embeds :: "('m, 'f) libs \<Rightarrow> ('m, 'f) globals \<Rightarrow> RAGQuery \<Rightarrow> bool" where
  "query_embeds L g request =
     (case embedder g of
        None \<Rightarrow> False
      | Some m \<Rightarrow>
          (case encode L m [enhanced_query request] of
             Inl e \<Rightarrow> False
           | Inr query_embedding \<Rightarrow>
               (case normalize_L2 L query_embedding of Inl e \<Rightarrow> False | Inr normalized \<Rightarrow> True)))"

subsection \<open>States the handler can see\<close>


subsection \<open>The query enhancement as the specification words it\<close>

text \<open>
  The country is appended when it is given, the category when it is given and is not
  \<open>"general"\<close>; "given" read as "not null".
\<close>

definition spec_enhanced_query :: "RAGQuery \<Rightarrow> string" where
  "spec_enhanced_query request =
     RAGQuery.query request
     @ (case RAGQuery.country request of None \<Rightarrow> [] | Some c \<Rightarrow> '' '' @ c)
     @ (case RAGQuery.category request of
          None \<Rightarrow> []
        | Some c \<Rightarrow> if c = ''general'' then [] else '' '' @ replace_underscores c)"

subsection \<open>A small instance of the libraries\<close>

text \<open>
  An exact, integer-valued stand-in for the libraries, used to run the model on concrete
  requests: a text is embedded as the length of its first word and a constant, normalisation is
  the identity, and search is brute force: the inner product against every stored vector,
  sorted by descending score with a stable sort, so that equal scores stay in ascending
  document order.
\<close>

definition toy_embed :: "string \<Rightarrow> int list" where
  "toy_embed t = [int (length (takeWhile (\<lambda>c. c \<noteq> CHR '' '') t)), 1]"

definition inner_product :: "int list \<Rightarrow> int list \<Rightarrow> int" where
  "inner_product u v = sum_list (map2 (*) u v)"

definition top_k :: "int faiss_index \<Rightarrow> nat \<Rightarrow> int list \<Rightarrow> (int \<times> int) list" where
  "top_k ix k q =
     take k (sort_key (\<lambda>p. - fst p)
               (zip (map (inner_product q) (vectors ix)) (map int [0..<ntotal ix])))"

definition toy_search :: "int faiss_index \<Rightarrow> int list list \<Rightarrow> int \<Rightarrow> exn + (int list list \<times> int list list)" where
  "toy_search ix q k =
     (if k \<le> 0 \<or> shape1 q \<noteq> Inr (dimension ix) then Inl (AssertionError [])
      else Inr (map (\<lambda>row. map fst (top_k ix (nat k) row)) q,
                map (\<lambda>row. map snd (top_k ix (nat k) row)) q))"

definition toy_libs :: "(string, int) libs" where
  "toy_libs =
     \<lparr>SentenceTransformer = (\<lambda>name. Inr name),
      encode = (\<lambda>m texts. Inr (map toy_embed texts)),
      normalize_L2 = (\<lambda>a. Inr a),
      search = toy_search,
      MODEL_NAME = ''all-MiniLM-L6-v2'',
      processing_time = 3\<rparr>"

text \<open>The same libraries with a model whose \<open>encode\<close> raises.\<close>

definition failing_libs :: "(string, int) libs" where
  "failing_libs = toy_libs\<lparr>encode := (\<lambda>m texts. Inl (LibraryError ''out of memory''))\<rparr>"

text \<open>The same libraries when the model cannot be loaded.\<close>

definition unloadable_libs :: "(string, int) libs" where
  "unloadable_libs =
     toy_libs\<lparr>SentenceTransformer := (\<lambda>name. Inl (LibraryError ''model not found''))\<rparr>"

text \<open>
  The same libraries with an index search that does not refuse a \<open>k\<close> that is not
  positive: it sizes its output by \<open>k\<close> and returns, for each query row, a row without
  entries.
\<close>

definition lenient_libs :: "(string, int) libs" where
  "lenient_libs =
     toy_libs\<lparr>search := (\<lambda>ix q k. if k \<le> 0 then Inr (map (\<lambda>row. []) q, map (\<lambda>row. []) q)
                                    else toy_search ix q k)\<rparr>"


definition example_request :: RAGQuery where
  "example_request =
     \<lparr>RAGQuery.query = ''visa requirements'', country = Some ''Portugal'',
      category = Some ''cost_of_living'', max_results = Some 3\<rparr>"

section \<open>Properties\<close>

subsection \<open>The corpus and the build\<close>

lemma contents_length: "contents docs = Inr texts \<Longrightarrow> length texts = length docs"
  by (induction docs arbitrary: texts) (auto split: sum.splits)

lemma corpus_contents:
  "contents get_emigration_documents =
     Inr (map (\<lambda>d. the (dict_get d ''content'')) get_emigration_documents)"
  by (simp add: get_emigration_documents_def dict_getitem_def dict_get_def)

lemma corpus_length: "length get_emigration_documents = 8"
  by (simp add: get_emigration_documents_def)


lemma corpus_has_content:
  "doc \<in> set get_emigration_documents \<Longrightarrow> \<exists>c. dict_getitem doc ''content'' = Inr c"
  by (auto simp: get_emigration_documents_def dict_getitem_def)

lemma corpus_has_source:
  "doc \<in> set get_emigration_documents \<Longrightarrow> \<exists>s. dict_get doc ''source'' = Some s"
  by (auto simp: get_emigration_documents_def dict_get_def)

lemma init_success:
  assumes "loading_error (initialize_simple_rag L initial_globals) = None"
  obtains m texts a dim b where
    "SentenceTransformer L (MODEL_NAME L) = Inr m"
    "contents get_emigration_documents = Inr texts"
    "encode L m texts = Inr a"
    "shape1 a = Inr dim"
    "normalize_L2 L a = Inr b"
    "shape1 b = Inr dim"
    "initialize_simple_rag L initial_globals =
       \<lparr>embedder = Some m, index = Some \<lparr>dimension = dim, vectors = b\<rparr>,
        documents = get_emigration_documents, metadata = get_emigration_documents,
        loading_error = None\<rparr>"
  using assms
  unfolding initialize_simple_rag_def init_failed_def initial_globals_def Let_def
    IndexFlatIP_def add_def
  by (auto split: sum.splits if_splits)


subsection \<open>Formatting and the handler\<close>

lemma list_getitem_in_range:
  "0 \<le> i \<Longrightarrow> i < int (length xs) \<Longrightarrow> list_getitem xs i = Inr (xs ! nat i)"
  by (simp add: list_getitem_def)

lemma list_getitem_member: "list_getitem xs i = Inr x \<Longrightarrow> x \<in> set xs"
  by (auto simp: list_getitem_def split: if_splits)

lemma format_results_total:
  assumes "\<forall>p \<in> set ps. 0 \<le> snd p \<and> snd p < int (length md)"
    and "\<forall>doc \<in> set md. \<exists>c. dict_getitem doc ''content'' = Inr c"
  shows "\<exists>rs. format_results md i ps = Inr rs \<and> length rs = length ps \<and>
           map (\<lambda>r. document_index (RAGResult.metadata r)) rs = map snd ps"
  using assms(1)
proof (induction ps arbitrary: i)
  case Nil
  then show ?case by simp
next
  case (Cons p ps)
  obtain score idx where p: "p = (score, idx)" by (cases p)
  from Cons.prems p have idx: "0 \<le> idx" "idx < int (length md)" by auto
  then have "md ! nat idx \<in> set md" by simp
  with assms(2) obtain c where c: "dict_getitem (md ! nat idx) ''content'' = Inr c" by blast
  from Cons.prems have "\<forall>p \<in> set ps. 0 \<le> snd p \<and> snd p < int (length md)" by simp
  from Cons.IH[OF this, of "i + 1"] obtain rs where
    rs: "format_results md (i + 1) ps = Inr rs" "length rs = length ps"
      "map (\<lambda>r. document_index (RAGResult.metadata r)) rs = map snd ps" by blast
  show ?case
    using p idx c rs by (simp add: list_getitem_in_range)
qed

lemma format_results_sound:
  "format_results md i ps = Inr rs \<Longrightarrow> r \<in> set rs \<Longrightarrow>
   \<exists>doc. list_getitem md (document_index (RAGResult.metadata r)) = Inr doc \<and>
     dict_getitem doc ''content'' = Inr (content r) \<and>
     source r = (case dict_get doc ''source'' of
                   None \<Rightarrow> ''Document '' @ str_int (document_index (RAGResult.metadata r))
                 | Some s \<Rightarrow> s) \<and>
     result_metadata.country (RAGResult.metadata r) = dict_get doc ''country'' \<and>
     result_metadata.category (RAGResult.metadata r) = dict_get doc ''category''"
proof (induction md i ps arbitrary: rs rule: format_results.induct)
  case (1 md i)
  then show ?case by simp
next
  case (2 md i score idx rest)
  show ?case
  proof (cases "idx < int (length md)")
    case False
    with 2 show ?thesis by simp
  next
    case True
    with "2.prems"(1) obtain doc c rs' where
      doc: "list_getitem md idx = Inr doc" and c: "dict_getitem doc ''content'' = Inr c"
      and rest: "format_results md (i + 1) rest = Inr rs'"
      and rs: "rs = \<lparr>content = c,
                   source = (case dict_get doc ''source'' of
                               None \<Rightarrow> ''Document '' @ str_int idx | Some s \<Rightarrow> s),
                   relevance_score = score,
                   metadata = \<lparr>country = dict_get doc ''country'',
                                category = dict_get doc ''category'',
                                rank = i + 1,
                                document_index = idx\<rparr>\<rparr> # rs'"
      by (auto split: sum.splits)
    from "2.prems"(2) rs consider "r = hd rs" | "r \<in> set rs'" by auto
    then show ?thesis
    proof cases
      case 1
      with rs doc c show ?thesis by (simp split: option.splits)
    next
      case 2
      from "2.IH"(1)[OF True doc c rest 2] show ?thesis .
    qed
  qed
qed

lemma retrieve_results_formatted:
  "retrieve_context L g request = Inr response \<Longrightarrow>
   \<exists>ps. format_results (globals.metadata g) 0 ps = Inr (results response)"
  by (auto simp: retrieve_context_def retrieve_body_def Let_def
      split: option.splits sum.splits prod.splits)

lemma format_results_pairs:
  "format_results md i ps = Inr rs \<Longrightarrow>
   map (\<lambda>r. (relevance_score r, document_index (RAGResult.metadata r),
             rank (RAGResult.metadata r))) rs =
   map (\<lambda>(j, s, l). (s, l, j + 1))
     (filter (\<lambda>(j, s, l). l < int (length md)) (enumerate i ps))"
proof (induction md i ps arbitrary: rs rule: format_results.induct)
  case (1 md i)
  then show ?case by simp
next
  case (2 md i score idx rest)
  show ?case
  proof (cases "idx < int (length md)")
    case False
    with "2.prems" have "format_results md (i + 1) rest = Inr rs" by simp
    from "2.IH"(2) [OF False this] False show ?thesis by simp
  next
    case True
    with "2.prems" obtain doc c rs' where
      doc: "list_getitem md idx = Inr doc" and c: "dict_getitem doc ''content'' = Inr c"
      and rest: "format_results md (i + 1) rest = Inr rs'"
      and rs: "map (\<lambda>r. (relevance_score r, document_index (RAGResult.metadata r),
                 rank (RAGResult.metadata r))) rs =
               (score, idx, i + 1) #
               map (\<lambda>r. (relevance_score r, document_index (RAGResult.metadata r),
                 rank (RAGResult.metadata r))) rs'"
      by (auto split: sum.splits)
    from "2.IH"(1) [OF True doc c rest] rs True show ?thesis by simp
  qed
qed

lemma retrieve_context_success:
  assumes "retrieve_context L g request = Inr response"
  obtains m ix qe qn scores labels s0 l0 where
    "embedder g = Some m" and "index g = Some ix"
    and "encode L m [enhanced_query request] = Inr qe"
    and "normalize_L2 L qe = Inr qn"
    and "search L ix qn (min (max_results_or_5 request) (int (length (documents g)))) =
           Inr (scores, labels)"
    and "list_getitem scores 0 = Inr s0" and "list_getitem labels 0 = Inr l0"
    and "format_results (globals.metadata g) 0 (zip s0 l0) = Inr (results response)"
  using assms
  by (auto simp: retrieve_context_def retrieve_body_def Let_def
      split: option.splits sum.splits prod.splits)

lemma retrieve_context_search_raises:
  assumes "embedder g = Some m" and "index g = Some ix"
    and "encode L m [enhanced_query request] = Inr qe" and "normalize_L2 L qe = Inr qn"
    and "search L ix qn (min (max_results_or_5 request) (int (length (documents g)))) = Inl e"
  shows "retrieve_context L g request = Inl (HTTPException 500 (''Search failed: '' @ str e))"
  using assms by (simp add: retrieve_context_def retrieve_body_def)

lemma retrieve_context_search_returns:
  assumes "embedder g = Some m" and "index g = Some ix"
    and "encode L m [enhanced_query request] = Inr qe" and "normalize_L2 L qe = Inr qn"
    and "search L ix qn (min (max_results_or_5 request) (int (length (documents g)))) =
           Inr (s0 # S, l0 # I)"
    and "format_results (globals.metadata g) 0 (zip s0 l0) = Inr rs"
  shows "retrieve_context L g request =
           Inr \<lparr>results = rs, query = RAGQuery.query request, total_results = length rs,
                processing_time_ms = processing_time L\<rparr>"
  using assms by (simp add: retrieve_context_def retrieve_body_def list_getitem_def)

lemma retrieve_context_cong:
  assumes "enhanced_query r1 = enhanced_query r2"
    and "max_results_or_5 r1 = max_results_or_5 r2"
    and "RAGQuery.query r1 = RAGQuery.query r2"
  shows "retrieve_context L g r1 = retrieve_context L g r2"
  unfolding retrieve_context_def retrieve_body_def assms ..

lemma enhanced_query_max_results [simp]:
  "enhanced_query (request\<lparr>max_results := n\<rparr>) = enhanced_query request"
  by (simp add: enhanced_query_def cong: if_cong)

lemma shape1_rows:
  "a \<noteq> [] \<Longrightarrow> \<forall>row \<in> set a. length row = D \<Longrightarrow> shape1 a = Inr D"
  by (cases a) (auto simp: shape1_def)

lemma shape1_map_length:
  "map length b = map length a \<Longrightarrow> shape1 b = shape1 a"
  by (cases a; cases b) (auto simp: shape1_def)

lemma retrieve_count:
  assumes enc: "encode_rows L" and nrm: "normalize_keeps_shape L" and srch: "search_returns_k L"
    and built: "built L g" and q: "query_embeds L g request"
    and pos: "0 < max_results_or_5 request"
  shows "\<exists>response. retrieve_context L g request = Inr response \<and>
           int (length (results response)) =
             min (max_results_or_5 request) (int (length (documents g))) \<and>
           total_results response = length (results response) \<and>
           (\<forall>r \<in> set (results response).
              0 \<le> document_index (RAGResult.metadata r) \<and>
              document_index (RAGResult.metadata r) < int (length (documents g)))"
proof -
  from built have g_def: "g = initialize_simple_rag L initial_globals"
    and ok: "loading_error (initialize_simple_rag L initial_globals) = None"
    by (auto simp: built_def)
  from ok obtain m texts a dim b where
    texts: "contents get_emigration_documents = Inr texts"
    and a: "encode L m texts = Inr a" and dim: "shape1 a = Inr dim"
    and b: "normalize_L2 L a = Inr b" and bdim: "shape1 b = Inr dim"
    and g: "g = \<lparr>embedder = Some m, index = Some \<lparr>dimension = dim, vectors = b\<rparr>,
                documents = get_emigration_documents, metadata = get_emigration_documents,
                loading_error = None\<rparr>"
    unfolding g_def by (rule init_success)
  define ix :: "'b faiss_index" where "ix = \<lparr>dimension = dim, vectors = b\<rparr>"
  from enc obtain D where D: "\<And>ts x. encode L m ts = Inr x \<Longrightarrow>
      length x = length ts \<and> (\<forall>row \<in> set x. length row = D)"
    unfolding encode_rows_def by blast
  have len_a: "length a = 8"
    using D[OF a] contents_length[OF texts] corpus_length by simp
  then have "a \<noteq> []" by auto
  with D[OF a] have "shape1 a = Inr D" by (intro shape1_rows) auto
  with dim have dimD: "dim = D" by simp
  from nrm b have "map length b = map length a"
    unfolding normalize_keeps_shape_def by blast
  then have "length b = length a" by (metis length_map)
  with len_a have ntotal: "ntotal ix = 8" by (simp add: ntotal_def ix_def)
  from q g obtain qe qn where qe: "encode L m [enhanced_query request] = Inr qe"
    and qn: "normalize_L2 L qe = Inr qn"
    by (auto simp: query_embeds_def split: sum.splits)
  from D[OF qe] have "length qe = 1" "\<forall>row \<in> set qe. length row = D" by auto
  then have "shape1 qe = Inr D" by (intro shape1_rows) auto
  moreover from nrm qn have shape_qn: "map length qn = map length qe"
    unfolding normalize_keeps_shape_def by blast
  ultimately have qn_shape: "shape1 qn = Inr (dimension ix)"
    using shape1_map_length[OF shape_qn] dimD by (simp add: ix_def)
  from shape_qn \<open>length qe = 1\<close> have len_qn: "length qn = 1" by (metis length_map)
  define k where "k = min (max_results_or_5 request) (int (length (documents g)))"
  have k: "0 < k" "k \<le> int (ntotal ix)"
    using pos ntotal g corpus_length by (auto simp: k_def)
  from srch k qn_shape obtain scores labels where
    s: "search L ix qn k = Inr (scores, labels)"
    and ls: "length scores = length qn" and ll: "length labels = length qn"
    and rows_s: "\<forall>row \<in> set scores. length row = nat k"
    and rows_l: "\<forall>row \<in> set labels. length row = nat k \<and>
                   (\<forall>l \<in> set row. 0 \<le> l \<and> l < int (ntotal ix))"
    unfolding search_returns_k_def by blast
  from ls len_qn obtain s0 where scores: "scores = [s0]"
    by (cases scores) auto
  from ll len_qn obtain l0 where labels: "labels = [l0]"
    by (cases labels) auto
  from rows_s scores have len_s0: "length s0 = nat k" by simp
  from rows_l labels have len_l0: "length l0 = nat k"
    and range_l0: "\<forall>l \<in> set l0. 0 \<le> l \<and> l < int (ntotal ix)" by auto
  have zip_range: "\<forall>p \<in> set (zip s0 l0). 0 \<le> snd p \<and> snd p < int (length get_emigration_documents)"
    using range_l0 ntotal corpus_length by (auto dest: set_zip_rightD)
  from format_results_total[OF zip_range, of 0] corpus_has_content
  obtain rs where rs: "format_results get_emigration_documents 0 (zip s0 l0) = Inr rs"
    and len_rs: "length rs = length (zip s0 l0)"
    and idx_rs: "map (\<lambda>r. document_index (RAGResult.metadata r)) rs = map snd (zip s0 l0)"
    by blast
  have body: "retrieve_body L g m ix request =
      Inr \<lparr>results = rs, query = RAGQuery.query request, total_results = length rs,
           processing_time_ms = processing_time L\<rparr>"
  proof -
    have "min (max_results_or_5 request) (int (length get_emigration_documents)) = k"
      using g by (simp add: k_def)
    with qe qn s scores labels rs g show ?thesis
      by (simp add: retrieve_body_def list_getitem_def)
  qed
  have resp: "retrieve_context L g request =
      Inr \<lparr>results = rs, query = RAGQuery.query request, total_results = length rs,
           processing_time_ms = processing_time L\<rparr>"
    using body g by (simp add: retrieve_context_def ix_def)
  have "int (length rs) = k"
    using len_rs len_s0 len_l0 k by simp
  moreover have "\<forall>r \<in> set rs. 0 \<le> document_index (RAGResult.metadata r) \<and>
      document_index (RAGResult.metadata r) < int (length (documents g))"
  proof
    fix r assume "r \<in> set rs"
    then have "document_index (RAGResult.metadata r) \<in> set (map snd (zip s0 l0))"
      using idx_rs by (metis (no_types, lifting) image_eqI list.set_map)
    then have "document_index (RAGResult.metadata r) \<in> set l0"
      by (auto dest: set_zip_rightD)
    with range_l0 ntotal g corpus_length
    show "0 \<le> document_index (RAGResult.metadata r) \<and>
      document_index (RAGResult.metadata r) < int (length (documents g))" by simp
  qed
  ultimately show ?thesis
    using resp by (simp add: k_def)
qed

subsection \<open>The small instance meets the guarantees\<close>

lemma toy_libs_sel:
  "SentenceTransformer toy_libs name = Inr name"
  "encode toy_libs m texts = Inr (map toy_embed texts)"
  "normalize_L2 toy_libs a = Inr a"
  "search toy_libs = toy_search"
  "processing_time toy_libs = 3"
  by (simp_all add: toy_libs_def)

lemma toy_embeddings:
  "map (toy_embed \<circ> (\<lambda>d. the (dict_get d ''content''))) get_emigration_documents =
     [[8, 1], [4, 1], [5, 1], [6, 1], [7, 1], [6, 1], [9, 1], [5, 1]]"
  by (simp add: get_emigration_documents_def dict_get_def toy_embed_def)

lemma toy_initialized:
  "initialize_simple_rag toy_libs initial_globals =
     \<lparr>embedder = Some ''all-MiniLM-L6-v2'',
      index = Some \<lparr>dimension = 2,
                    vectors = [[8, 1], [4, 1], [5, 1], [6, 1], [7, 1], [6, 1], [9, 1], [5, 1]]\<rparr>,
      documents = get_emigration_documents,
      metadata = get_emigration_documents,
      loading_error = None\<rparr>"
  by (simp add: initialize_simple_rag_def toy_libs_def initial_globals_def corpus_contents
      toy_embeddings shape1_def IndexFlatIP_def add_def)

lemma failing_initialized:
  "initialize_simple_rag failing_libs initial_globals =
     \<lparr>embedder = Some ''all-MiniLM-L6-v2'',
      index = None,
      documents = get_emigration_documents,
      metadata = [],
      loading_error = Some ''out of memory''\<rparr>"
  by (simp add: initialize_simple_rag_def failing_libs_def toy_libs_def initial_globals_def
      corpus_contents init_failed_def)

lemma unloadable_initialized:
  "initialize_simple_rag unloadable_libs initial_globals =
     \<lparr>embedder = None, index = None, documents = [], metadata = [],
      loading_error = Some ''model not found''\<rparr>"
  by (simp add: initialize_simple_rag_def unloadable_libs_def init_failed_def
      initial_globals_def)

lemma toy_built: "built toy_libs (initialize_simple_rag toy_libs initial_globals)"
  by (simp add: built_def toy_initialized)

lemma toy_query_embeds:
  "query_embeds toy_libs (initialize_simple_rag toy_libs initial_globals) request"
  by (simp add: query_embeds_def toy_initialized toy_libs_sel)

lemma toy_top_3:
  "top_k \<lparr>dimension = 2,
          vectors = [[8, 1], [4, 1], [5, 1], [6, 1], [7, 1], [6, 1], [9, 1], [5, 1]]\<rparr> 3 [4, 1] =
     [(37, 6), (33, 0), (29, 4)]"
  by (simp add: top_k_def ntotal_def inner_product_def upt_rec)

lemma toy_encode_rows: "encode_rows toy_libs"
  unfolding encode_rows_def toy_libs_def
  by (auto simp: toy_embed_def intro!: exI[of _ 2])

lemma toy_normalize_keeps_shape: "normalize_keeps_shape toy_libs"
  by (simp add: normalize_keeps_shape_def toy_libs_def)

lemma length_top_k: "k \<le> ntotal ix \<Longrightarrow> length (top_k ix k q) = k"
  by (simp add: top_k_def ntotal_def)

lemma labels_top_k: "l \<in> snd ` set (top_k ix k q) \<Longrightarrow> 0 \<le> l \<and> l < int (ntotal ix)"
proof -
  assume "l \<in> snd ` set (top_k ix k q)"
  then obtain s where "(s, l) \<in> set (top_k ix k q)" by auto
  then have "(s, l) \<in> set (zip (map (inner_product q) (vectors ix)) (map int [0..<ntotal ix]))"
    unfolding top_k_def by (auto dest: in_set_takeD)
  then have "l \<in> set (map int [0..<ntotal ix])" by (rule set_zip_rightD)
  then show ?thesis by auto
qed

lemma toy_search_returns_k: "search_returns_k toy_libs"
  unfolding search_returns_k_def
proof (intro allI impI)
  fix ix :: "int faiss_index" and q :: "int list list" and k :: int
  assume k: "0 < k" "k \<le> int (ntotal ix)" and q: "shape1 q = Inr (dimension ix)"
  then have "search toy_libs ix q k =
      Inr (map (\<lambda>row. map fst (top_k ix (nat k) row)) q,
           map (\<lambda>row. map snd (top_k ix (nat k) row)) q)"
    by (simp add: toy_libs_def toy_search_def)
  moreover from k have "nat k \<le> ntotal ix" by simp
  ultimately show "\<exists>scores labels. search toy_libs ix q k = Inr (scores, labels) \<and>
           length scores = length q \<and> length labels = length q \<and>
           (\<forall>row \<in> set scores. length row = nat k) \<and>
           (\<forall>row \<in> set labels. length row = nat k \<and>
              (\<forall>l \<in> set row. 0 \<le> l \<and> l < int (ntotal ix)))"
    using labels_top_k[of _ ix "nat k"] by (auto simp: length_top_k)
qed

lemma lenient_libs_sel:
  "encode lenient_libs m texts = Inr (map toy_embed texts)"
  "normalize_L2 lenient_libs a = Inr a"
  "search lenient_libs ix q k =
     (if k \<le> 0 then Inr (map (\<lambda>row. []) q, map (\<lambda>row. []) q) else toy_search ix q k)"
  "processing_time lenient_libs = 3"
  by (simp_all add: lenient_libs_def toy_libs_def)


lemma example_enhanced:
  "enhanced_query example_request = ''visa requirements Portugal cost of living''"
  by (simp add: enhanced_query_def example_request_def truthy_def replace_underscores_def)

lemma example_fields:
  "max_results_or_5 example_request = 3"
  "RAGQuery.query example_request = ''visa requirements''"
  by (simp_all add: example_request_def max_results_or_5_def)

lemma toy_search_example:
  "toy_search
     \<lparr>dimension = 2,
      vectors = [[8, 1], [4, 1], [5, 1], [6, 1], [7, 1], [6, 1], [9, 1], [5, 1]]\<rparr>
     [[4, 1]] 3 = Inr ([[37, 33, 29]], [[6, 0, 4]])"
  by (simp add: toy_search_def shape1_def toy_top_3)

lemma toy_format_example:
  "\<exists>rs. format_results get_emigration_documents 0 (zip [37, 33, 29] [6, 0, 4]) = Inr rs \<and>
     map (\<lambda>r. (relevance_score r, document_index (RAGResult.metadata r),
               rank (RAGResult.metadata r), source r)) rs =
       [(37 :: int, 6, 1, ''Australia Immigration 2024''),
        (33, 0, 2, ''Portugal Immigration Authority 2024''),
        (29, 4, 3, ''Germany Immigration 2024'')]"
  by (simp add: get_emigration_documents_def list_getitem_def dict_getitem_def dict_get_def
      Let_def)

lemma toy_retrieve_example:
  "\<exists>rs. retrieve_context toy_libs (initialize_simple_rag toy_libs initial_globals)
           example_request =
     Inr \<lparr>results = rs, query = ''visa requirements'', total_results = 3,
          processing_time_ms = 3\<rparr> \<and>
     map (\<lambda>r. (relevance_score r, document_index (RAGResult.metadata r),
               rank (RAGResult.metadata r), source r)) rs =
       [(37, 6, 1, ''Australia Immigration 2024''),
        (33, 0, 2, ''Portugal Immigration Authority 2024''),
        (29, 4, 3, ''Germany Immigration 2024'')]"
proof -
  let ?shown = "\<lambda>rs. map (\<lambda>r. (relevance_score r, document_index (RAGResult.metadata r),
               rank (RAGResult.metadata r), source r)) rs =
       [(37 :: int, 6, 1, ''Australia Immigration 2024''),
        (33, 0, 2, ''Portugal Immigration Authority 2024''),
        (29, 4, 3, ''Germany Immigration 2024'')]"
  from toy_format_example obtain rs where both:
    "format_results get_emigration_documents 0 (zip [37, 33, 29] [6, 0, 4]) = Inr rs \<and>
     ?shown rs" ..
  from both have rs:
    "format_results get_emigration_documents 0 (zip [37, 33, 29] [6, 0, 4]) = Inr rs"
    by (rule conjunct1)
  from both have shown: "?shown rs" by (rule conjunct2)
  from arg_cong [OF shown, of length] have "length rs = 3" by simp
  with rs have "retrieve_context toy_libs (initialize_simple_rag toy_libs initial_globals)
           example_request =
     Inr \<lparr>results = rs, query = ''visa requirements'', total_results = 3,
          processing_time_ms = 3\<rparr>"
    unfolding toy_initialized
    by (simp add: retrieve_context_def retrieve_body_def toy_libs_sel example_enhanced
        example_fields toy_embed_def corpus_length toy_search_example list_getitem_def)
  with shown show ?thesis by (intro exI [of _ rs] conjI)
qed

section \<open>The claims\<close>

subsection \<open>Empty corpus\<close>




subsection \<open>Query enhancement\<close>

text \<open>
  Claim C3, amended. The string given to the vectorizer is the original query, followed
  by a space and the country when the country is given and is not the empty string,
  followed by a space and the category with every underscore replaced by a space when
  the category is given, is not the empty string and is not \<open>"general"\<close>: it is what the
  specification's wording gives once an empty country or category is treated as absent.
  The query \<open>"visa requirements"\<close> with country \<open>"Portugal"\<close> and category
  \<open>"cost_of_living"\<close> gives \<open>"visa requirements Portugal cost of living"\<close>. The
  model is consulted at this one-element list only: replacing \<open>encode\<close> by any function
  that agrees with it there leaves the response unchanged.
\<close>

theorem enhanced_query_appends:
  "enhanced_query request =
     spec_enhanced_query
       (request\<lparr>RAGQuery.country :=
                   (if RAGQuery.country request = Some [] then None else RAGQuery.country request),
                 RAGQuery.category :=
                   (if RAGQuery.category request = Some [] then None
                    else RAGQuery.category request)\<rparr>) \<and>
   enhanced_query \<lparr>RAGQuery.query = ''visa requirements'', country = Some ''Portugal'',
                   category = Some ''cost_of_living'', max_results = n\<rparr> =
     ''visa requirements Portugal cost of living'' \<and>
   ((\<forall>m. enc m [enhanced_query request] = encode L m [enhanced_query request]) \<longrightarrow>
      retrieve_context (L\<lparr>encode := enc\<rparr>) g request = retrieve_context L g request)"
proof (intro conjI impI)
  show "enhanced_query request =
     spec_enhanced_query
       (request\<lparr>RAGQuery.country :=
                   (if RAGQuery.country request = Some [] then None else RAGQuery.country request),
                 RAGQuery.category :=
                   (if RAGQuery.category request = Some [] then None
                    else RAGQuery.category request)\<rparr>)"
    by (cases "RAGQuery.country request"; cases "RAGQuery.category request")
       (auto simp: enhanced_query_def spec_enhanced_query_def truthy_def)
  show "enhanced_query \<lparr>RAGQuery.query = ''visa requirements'', country = Some ''Portugal'',
                   category = Some ''cost_of_living'', max_results = n\<rparr> =
     ''visa requirements Portugal cost of living''"
    by (simp add: enhanced_query_def truthy_def replace_underscores_def)
next
  assume same: "\<forall>m. enc m [enhanced_query request] = encode L m [enhanced_query request]"
  have "retrieve_body (L\<lparr>encode := enc\<rparr>) g m ix request = retrieve_body L g m ix request"
    for m ix
    using same by (simp add: retrieve_body_def cong: sum.case_cong)
  then show "retrieve_context (L\<lparr>encode := enc\<rparr>) g request = retrieve_context L g request"
    by (simp add: retrieve_context_def split: option.splits)
qed

text \<open>
  As worded, with "given" meaning "not null", the claim fails for a country that is the
  empty string: the test \<open>if request.country\<close> is false for it and nothing is appended,
  where the wording appends a space.
\<close>

theorem enhanced_query_appends_counterexample:
  "enhanced_query \<lparr>RAGQuery.query = ''visa'', country = Some [], category = None,
                   max_results = None\<rparr> = ''visa'' \<and>
   spec_enhanced_query \<lparr>RAGQuery.query = ''visa'', country = Some [], category = None,
                        max_results = None\<rparr> = ''visa ''"
  by (simp add: enhanced_query_def spec_enhanced_query_def truthy_def)

theorem enhanced_query_appends_witness:
  "(\<forall>m. (\<lambda>m texts. if texts = [''visa requirements Portugal cost of living'']
                     then Inr [[4, 1]] else Inl (LibraryError ''not called''))
          m [enhanced_query example_request] =
        encode toy_libs m [enhanced_query example_request]) \<and>
   retrieve_context
     (toy_libs\<lparr>encode := (\<lambda>m texts. if texts = [''visa requirements Portugal cost of living'']
                                      then Inr [[4, 1]] else Inl (LibraryError ''not called''))\<rparr>)
     (initialize_simple_rag toy_libs initial_globals) example_request =
   retrieve_context toy_libs (initialize_simple_rag toy_libs initial_globals) example_request"
proof -
  let ?enc = "\<lambda>(m::string) texts. if texts = [''visa requirements Portugal cost of living'']
                then Inr [[4::int, 1]] else Inl (LibraryError ''not called'')"
  have h: "\<forall>m. ?enc m [enhanced_query example_request] =
        encode toy_libs m [enhanced_query example_request]"
    by (simp add: example_enhanced toy_libs_sel toy_embed_def)
  from enhanced_query_appends
    [of example_request _ ?enc toy_libs "initialize_simple_rag toy_libs initial_globals"] h
  show ?thesis by blast
qed

subsection \<open>Number of results\<close>

text \<open>
  Claim C4. On a successfully built engine whose model embeds the query, a request with a
  positive \<open>max_results\<close> is answered, without an error, with exactly
  \<open>min(max_results, N)\<close> results, \<open>N\<close> the number of documents; when
  \<open>max_results\<close> exceeds \<open>N\<close> there are exactly \<open>N\<close> results. The libraries are
  assumed to keep their shapes: one embedding row for each text, normalisation in place,
  and \<open>k\<close> labels of stored vectors from a search with \<open>0 < k \<le> ntotal\<close>.
\<close>

theorem k_clamping:
  assumes "encode_rows L" and "normalize_keeps_shape L" and "search_returns_k L"
    and "built L g" and "query_embeds L g request"
    and "max_results request = Some n" and "0 < n"
  shows "\<exists>response. retrieve_context L g request = Inr response \<and>
           int (length (results response)) = min n (int (length (documents g))) \<and>
           total_results response = length (results response) \<and>
           (int (length (documents g)) < n \<longrightarrow>
              length (results response) = length (documents g))"
proof -
  from assms(6,7) have k: "max_results_or_5 request = n"
    by (simp add: max_results_or_5_def)
  with assms(7) have "0 < max_results_or_5 request" by simp
  from retrieve_count [OF assms(1-5) this] obtain response where
    r: "retrieve_context L g request = Inr response"
    and len: "int (length (results response)) =
                min (max_results_or_5 request) (int (length (documents g)))"
    and total: "total_results response = length (results response)"
    by (elim exE conjE)
  from len k have "int (length (results response)) = min n (int (length (documents g)))"
    by simp
  moreover from this have "int (length (documents g)) < n \<longrightarrow>
      length (results response) = length (documents g)" by linarith
  ultimately show ?thesis using r total by (intro exI [of _ response] conjI)
qed

theorem k_clamping_witness:
  "encode_rows toy_libs \<and> normalize_keeps_shape toy_libs \<and> search_returns_k toy_libs \<and>
   built toy_libs (initialize_simple_rag toy_libs initial_globals) \<and>
   query_embeds toy_libs (initialize_simple_rag toy_libs initial_globals)
     (example_request\<lparr>max_results := Some 20\<rparr>) \<and>
   max_results (example_request\<lparr>max_results := Some 20\<rparr>) = Some 20 \<and>
   (\<exists>response.
      retrieve_context toy_libs (initialize_simple_rag toy_libs initial_globals)
        (example_request\<lparr>max_results := Some 20\<rparr>) = Inr response \<and>
      length (results response) = 8)"
proof -
  have n: "max_results (example_request\<lparr>max_results := Some 20\<rparr>) = Some 20" by simp
  from k_clamping [OF toy_encode_rows toy_normalize_keeps_shape toy_search_returns_k
      toy_built toy_query_embeds n]
  obtain response where
    "retrieve_context toy_libs (initialize_simple_rag toy_libs initial_globals)
        (example_request\<lparr>max_results := Some 20\<rparr>) = Inr response"
    and "int (length (results response)) =
           min 20 (int (length (documents (initialize_simple_rag toy_libs initial_globals))))"
    by auto
  then have "retrieve_context toy_libs (initialize_simple_rag toy_libs initial_globals)
        (example_request\<lparr>max_results := Some 20\<rparr>) = Inr response \<and>
      length (results response) = 8"
    by (simp add: toy_initialized corpus_length)
  then have "\<exists>response.
      retrieve_context toy_libs (initialize_simple_rag toy_libs initial_globals)
        (example_request\<lparr>max_results := Some 20\<rparr>) = Inr response \<and>
      length (results response) = 8" ..
  with toy_encode_rows toy_normalize_keeps_shape toy_search_returns_k toy_built
    toy_query_embeds n
  show ?thesis by (intro conjI)
qed

subsection \<open>A search size that is not positive\<close>

text \<open>
  Claim C5, amended. The handler neither rejects nor clamps a \<open>max_results\<close> that is not
  positive, and the service has no error of its own for it. A \<open>max_results\<close> of zero is
  replaced by the default: the request gets the response of the same request with
  \<open>max_results = 5\<close>. A negative \<open>max_results\<close> is handed unchanged, as \<open>k\<close>, to the
  index search on a ready engine whose model embeds the query, and the outcome is that of
  the search: when the search raises, the handler catches the exception and the request
  fails with status 500 and the detail \<open>Search failed:\<close> followed by the exception's
  text; when the search returns rows, they are formatted into a response.
\<close>

theorem nonpositive_max_results_unchecked:
  assumes "embedder g = Some m" and "index g = Some ix"
    and "max_results request = Some n" and "n \<le> 0"
    and "encode L m [enhanced_query request] = Inr qe" and "normalize_L2 L qe = Inr qn"
  shows "(n = 0 \<longrightarrow>
            retrieve_context L g request =
              retrieve_context L g (request\<lparr>max_results := Some 5\<rparr>)) \<and>
         (n < 0 \<longrightarrow>
            (\<forall>e. search L ix qn n = Inl e \<longrightarrow>
               retrieve_context L g request =
                 Inl (HTTPException 500 (''Search failed: '' @ str e))) \<and>
            (\<forall>s0 S l0 I rs.
               search L ix qn n = Inr (s0 # S, l0 # I) \<longrightarrow>
               format_results (globals.metadata g) 0 (zip s0 l0) = Inr rs \<longrightarrow>
               retrieve_context L g request =
                 Inr \<lparr>results = rs, query = RAGQuery.query request,
                      total_results = length rs,
                      processing_time_ms = processing_time L\<rparr>))"
proof (intro conjI impI allI)
  assume "n = 0"
  with assms(3) have "max_results_or_5 request = max_results_or_5 (request\<lparr>max_results := Some 5\<rparr>)"
    by (simp add: max_results_or_5_def)
  then show "retrieve_context L g request =
      retrieve_context L g (request\<lparr>max_results := Some 5\<rparr>)"
    by (intro retrieve_context_cong) simp_all
next
  fix e
  assume "n < 0" and "search L ix qn n = Inl e"
  with assms(3) have
    "search L ix qn (min (max_results_or_5 request) (int (length (documents g)))) = Inl e"
    by (simp add: max_results_or_5_def)
  with assms(1,2,5,6) show "retrieve_context L g request =
      Inl (HTTPException 500 (''Search failed: '' @ str e))"
    by (rule retrieve_context_search_raises)
next
  fix s0 S l0 I rs
  assume "n < 0" and "search L ix qn n = Inr (s0 # S, l0 # I)"
    and fmt: "format_results (globals.metadata g) 0 (zip s0 l0) = Inr rs"
  with assms(3) have
    "search L ix qn (min (max_results_or_5 request) (int (length (documents g)))) =
       Inr (s0 # S, l0 # I)"
    by (simp add: max_results_or_5_def)
  from retrieve_context_search_returns [OF assms(1,2,5,6) this fmt]
  show "retrieve_context L g request =
      Inr \<lparr>results = rs, query = RAGQuery.query request, total_results = length rs,
           processing_time_ms = processing_time L\<rparr>" .
qed

text \<open>
  On the engine built with the small instance, \<open>max_results = 0\<close> is answered with five
  results, which is no minimum, since \<open>max_results = 1\<close> is answered with one result,
  while \<open>max_results = -1\<close> fails with the status 500 of any exception in the handler:
  two behaviours, neither an error for an invalid \<open>k\<close> nor a clamp to a minimum.
\<close>

theorem nonpositive_max_results_unchecked_counterexample:
  "\<not> isl (retrieve_context toy_libs (initialize_simple_rag toy_libs initial_globals)
            (example_request\<lparr>max_results := Some 0\<rparr>)) \<and>
   length (results (projr (retrieve_context toy_libs
             (initialize_simple_rag toy_libs initial_globals)
             (example_request\<lparr>max_results := Some 0\<rparr>)))) = 5 \<and>
   length (results (projr (retrieve_context toy_libs
             (initialize_simple_rag toy_libs initial_globals)
             (example_request\<lparr>max_results := Some 1\<rparr>)))) = 1 \<and>
   retrieve_context toy_libs (initialize_simple_rag toy_libs initial_globals)
     (example_request\<lparr>max_results := Some (- 1)\<rparr>) =
     Inl (HTTPException 500 ''Search failed: '')"
proof -
  let ?g = "initialize_simple_rag toy_libs initial_globals"
  have count: "\<exists>response. retrieve_context toy_libs ?g (example_request\<lparr>max_results := n\<rparr>) =
        Inr response \<and>
      int (length (results response)) =
        min (max_results_or_5 (example_request\<lparr>max_results := n\<rparr>)) 8"
    if "0 < max_results_or_5 (example_request\<lparr>max_results := n\<rparr>)" for n
  proof -
    from retrieve_count [OF toy_encode_rows toy_normalize_keeps_shape toy_search_returns_k
        toy_built toy_query_embeds that]
    obtain response where
      "retrieve_context toy_libs ?g (example_request\<lparr>max_results := n\<rparr>) = Inr response"
      and "int (length (results response)) =
        min (max_results_or_5 (example_request\<lparr>max_results := n\<rparr>))
          (int (length (documents ?g)))"
      by (elim exE conjE)
    moreover have "length (documents ?g) = 8"
      by (simp add: toy_initialized corpus_length)
    ultimately show ?thesis by (intro exI [of _ response]) simp
  qed
  from count [of "Some 0"] obtain r0 where
    "retrieve_context toy_libs ?g (example_request\<lparr>max_results := Some 0\<rparr>) = Inr r0"
    and "length (results r0) = 5"
    by (auto simp: max_results_or_5_def)
  moreover from count [of "Some 1"] obtain r1 where
    "retrieve_context toy_libs ?g (example_request\<lparr>max_results := Some 1\<rparr>) = Inr r1"
    and "length (results r1) = 1"
    by (auto simp: max_results_or_5_def)
  moreover have "retrieve_context toy_libs ?g (example_request\<lparr>max_results := Some (- 1)\<rparr>) =
      Inl (HTTPException 500 ''Search failed: '')"
    unfolding toy_initialized
    by (simp add: retrieve_context_def retrieve_body_def toy_libs_sel max_results_or_5_def
        corpus_length toy_search_def)
  ultimately show ?thesis by simp
qed

theorem nonpositive_max_results_unchecked_witness:
  "retrieve_context toy_libs (initialize_simple_rag toy_libs initial_globals)
     (example_request\<lparr>max_results := Some (- 2)\<rparr>) =
     Inl (HTTPException 500 ''Search failed: '') \<and>
   retrieve_context lenient_libs (initialize_simple_rag toy_libs initial_globals)
     (example_request\<lparr>max_results := Some (- 2)\<rparr>) =
     Inr \<lparr>results = [], query = ''visa requirements'', total_results = 0,
          processing_time_ms = 3\<rparr> \<and>
   retrieve_context toy_libs (initialize_simple_rag toy_libs initial_globals)
     (example_request\<lparr>max_results := Some 0\<rparr>) =
   retrieve_context toy_libs (initialize_simple_rag toy_libs initial_globals)
     (example_request\<lparr>max_results := Some 5\<rparr>)"
proof -
  let ?g = "initialize_simple_rag toy_libs initial_globals"
  let ?ix = "\<lparr>dimension = 2,
      vectors = [[8, 1], [4, 1], [5, 1], [6, 1], [7, 1], [6, 1], [9, 1], [5, 1 :: int]]\<rparr>"
  let ?neg = "example_request\<lparr>max_results := Some (- 2)\<rparr>"
  let ?zero = "example_request\<lparr>max_results := Some 0\<rparr>"
  have m: "embedder ?g = Some ''all-MiniLM-L6-v2''" and ix: "index ?g = Some ?ix"
    and md: "globals.metadata ?g = get_emigration_documents"
    by (simp_all add: toy_initialized)
  have neg: "max_results ?neg = Some (- 2)" and zero: "max_results ?zero = Some 0"
    by simp_all
  have qe: "encode toy_libs ''all-MiniLM-L6-v2'' [enhanced_query ?neg] = Inr [[4, 1]]"
    and qe0: "encode toy_libs ''all-MiniLM-L6-v2'' [enhanced_query ?zero] = Inr [[4, 1]]"
    and qn: "normalize_L2 toy_libs [[4, 1]] = Inr [[4, 1]]"
    and lqe: "encode lenient_libs ''all-MiniLM-L6-v2'' [enhanced_query ?neg] = Inr [[4, 1]]"
    and lqn: "normalize_L2 lenient_libs [[4, 1]] = Inr [[4, 1]]"
    by (simp_all add: toy_libs_sel lenient_libs_sel example_enhanced toy_embed_def)
  have raises: "search toy_libs ?ix [[4, 1]] (- 2) = Inl (AssertionError [])"
    by (simp add: toy_libs_sel toy_search_def)
  have returns: "search lenient_libs ?ix [[4, 1]] (- 2) = Inr ([] # [], [] # [])"
    by (simp add: lenient_libs_sel)
  have fmt: "format_results (globals.metadata ?g) 0 (zip [] []) =
      Inr ([] :: int RAGResult list)"
    by simp
  from nonpositive_max_results_unchecked [OF m ix neg _ qe qn] raises
  have "retrieve_context toy_libs ?g ?neg = Inl (HTTPException 500 ''Search failed: '')"
    by simp
  moreover from nonpositive_max_results_unchecked [OF m ix neg _ lqe lqn] returns fmt
  have "retrieve_context lenient_libs ?g ?neg =
      Inr \<lparr>results = [], query = ''visa requirements'', total_results = 0,
           processing_time_ms = 3\<rparr>"
    by (simp add: example_fields lenient_libs_sel)
  moreover from nonpositive_max_results_unchecked [OF m ix zero _ qe0 qn]
  have "retrieve_context toy_libs ?g ?zero =
      retrieve_context toy_libs ?g (example_request\<lparr>max_results := Some 5\<rparr>)"
    by simp
  ultimately show ?thesis by (intro conjI)
qed

subsection \<open>Readiness\<close>

text \<open>
  Claim C6. When the engine is not initialised (the model handle or the index is absent),
  \<open>retrieve_context\<close> fails with status 503, the service-unavailable response, whose
  detail carries the recorded loading error. The result does not depend on the libraries:
  neither the model nor the index search is consulted.
\<close>

theorem retrieve_not_ready:
  "embedder g = None \<or> index g = None \<Longrightarrow>
   retrieve_context L g request =
     Inl (HTTPException 503
            (''Simple RAG not initialized: '' @
             (case loading_error g of None \<Rightarrow> ''None'' | Some msg \<Rightarrow> msg)))"
  by (auto simp: retrieve_context_def split: option.splits)

theorem retrieve_not_ready_witness:
  "(embedder (initialize_simple_rag failing_libs initial_globals) = None \<or>
    index (initialize_simple_rag failing_libs initial_globals) = None) \<and>
   retrieve_context toy_libs (initialize_simple_rag failing_libs initial_globals) example_request =
     Inl (HTTPException 503 ''Simple RAG not initialized: out of memory'')"
proof -
  have h: "embedder (initialize_simple_rag failing_libs initial_globals) = None \<or>
    index (initialize_simple_rag failing_libs initial_globals) = None"
    by (simp add: failing_initialized)
  show ?thesis
    using h retrieve_not_ready [OF h, of toy_libs example_request]
    by (simp add: failing_initialized)
qed

subsection \<open>Outcome of the initialisation\<close>

text \<open>
  Claim C7, amended. Initialisation is not atomic. Run on the initial globals, it either
  succeeds, with no error recorded and the model handle, the index, the corpus store and
  the metadata all set, or it records the error and leaves the metadata empty; in the
  second case the globals assigned before the failing step keep their new values: a
  failed model load leaves every global in its initial null state, and a later failure
  leaves the model handle and the corpus store assigned and the index absent or empty.
\<close>

theorem initialization_outcome:
  "g = initialize_simple_rag L initial_globals \<Longrightarrow>
   (loading_error g = None \<and> embedder g \<noteq> None \<and> index g \<noteq> None \<and>
    documents g = get_emigration_documents \<and> globals.metadata g = get_emigration_documents)
   \<or>
   (\<exists>msg. loading_error g = Some msg \<and> globals.metadata g = [] \<and>
      ((embedder g = None \<and> index g = None \<and> documents g = [])
       \<or>
       (embedder g \<noteq> None \<and> documents g = get_emigration_documents \<and>
        (case index g of None \<Rightarrow> True | Some ix \<Rightarrow> ntotal ix = 0))))"
  by (auto simp: initialize_simple_rag_def init_failed_def initial_globals_def Let_def
      IndexFlatIP_def ntotal_def split: sum.splits)

text \<open>
  When \<open>encode\<close> raises, the model handle and the eight documents are already assigned
  while the index is absent: neither the initial null state nor a full initialisation.
\<close>

theorem initialization_outcome_counterexample:
  "embedder (initialize_simple_rag failing_libs initial_globals) = Some ''all-MiniLM-L6-v2'' \<and>
   length (documents (initialize_simple_rag failing_libs initial_globals)) = 8 \<and>
   index (initialize_simple_rag failing_libs initial_globals) = None \<and>
   globals.metadata (initialize_simple_rag failing_libs initial_globals) = [] \<and>
   loading_error (initialize_simple_rag failing_libs initial_globals) = Some ''out of memory''"
  by (simp add: failing_initialized corpus_length)

theorem initialization_outcome_witness:
  "loading_error (initialize_simple_rag unloadable_libs initial_globals) =
     Some ''model not found'' \<and>
   embedder (initialize_simple_rag unloadable_libs initial_globals) = None \<and>
   index (initialize_simple_rag unloadable_libs initial_globals) = None \<and>
   documents (initialize_simple_rag unloadable_libs initial_globals) = [] \<and>
   globals.metadata (initialize_simple_rag unloadable_libs initial_globals) = []"
  using initialization_outcome [OF refl, of unloadable_libs]
  by (simp add: unloadable_initialized)

subsection \<open>Alignment of the corpus store and the index\<close>

text \<open>
  Claim C8. After a successful build the index holds as many vectors as there are
  documents, the metadata list is the document list, and the stored vectors are, row by
  row, the normalised embeddings of the documents' contents in document order. Every
  result of a successful request takes its content, source, country and category from
  the document that the list holds at the result's \<open>document_index\<close>, and the results
  are, in order, the pairs of score and label that the index search returned for the
  embedded query: \<open>relevance_score\<close> is the score, \<open>document_index\<close> is the label and
  \<open>rank\<close> is the position of the pair, counted from one; only a label that is not
  below the number of documents is left out. So the label of a stored vector selects the
  document at the same position. The model is assumed to return one row for each text
  and the normalisation to keep the shape.
\<close>

theorem index_alignment:
  assumes "encode_rows L" and "normalize_keeps_shape L" and "built L g"
  shows "(\<exists>m ix texts a.
            embedder g = Some m \<and> index g = Some ix \<and>
            globals.metadata g = documents g \<and>
            ntotal ix = length (documents g) \<and>
            contents (documents g) = Inr texts \<and> length texts = length (documents g) \<and>
            encode L m texts = Inr a \<and> normalize_L2 L a = Inr (vectors ix)) \<and>
         (\<forall>request response r.
            retrieve_context L g request = Inr response \<longrightarrow> r \<in> set (results response) \<longrightarrow>
            (\<exists>doc. list_getitem (documents g) (document_index (RAGResult.metadata r)) = Inr doc \<and>
               dict_getitem doc ''content'' = Inr (content r) \<and>
               dict_get doc ''source'' = Some (source r) \<and>
               dict_get doc ''country'' = result_metadata.country (RAGResult.metadata r) \<and>
               dict_get doc ''category'' = result_metadata.category (RAGResult.metadata r))) \<and>
         (\<forall>request response m ix.
            retrieve_context L g request = Inr response \<longrightarrow>
            embedder g = Some m \<longrightarrow> index g = Some ix \<longrightarrow>
            (\<exists>qe qn scores labels s0 l0.
               encode L m [enhanced_query request] = Inr qe \<and>
               normalize_L2 L qe = Inr qn \<and>
               search L ix qn (min (max_results_or_5 request) (int (length (documents g)))) =
                 Inr (scores, labels) \<and>
               list_getitem scores 0 = Inr s0 \<and> list_getitem labels 0 = Inr l0 \<and>
               map (\<lambda>r. (relevance_score r, document_index (RAGResult.metadata r),
                         rank (RAGResult.metadata r))) (results response) =
                 map (\<lambda>(j, s, l). (s, l, j + 1))
                   (filter (\<lambda>(j, s, l). l < int (length (documents g)))
                      (enumerate 0 (zip s0 l0)))))"
proof (intro conjI allI impI)
  from assms(3) have g_def: "g = initialize_simple_rag L initial_globals"
    and ok: "loading_error (initialize_simple_rag L initial_globals) = None"
    by (auto simp: built_def)
  from ok obtain m texts a dim b where
    texts: "contents get_emigration_documents = Inr texts"
    and a: "encode L m texts = Inr a"
    and b: "normalize_L2 L a = Inr b"
    and g: "g = \<lparr>embedder = Some m, index = Some \<lparr>dimension = dim, vectors = b\<rparr>,
                documents = get_emigration_documents, metadata = get_emigration_documents,
                loading_error = None\<rparr>"
    unfolding g_def by (rule init_success)
  have len_texts: "length texts = length get_emigration_documents"
    using texts by (rule contents_length)
  from assms(1) a have "length a = length texts"
    unfolding encode_rows_def by blast
  moreover from assms(2) b have "map length b = map length a"
    unfolding normalize_keeps_shape_def by blast
  then have "length b = length a" by (metis length_map)
  ultimately have len_b: "length b = length get_emigration_documents"
    using len_texts by simp
  show "\<exists>m ix texts a.
            embedder g = Some m \<and> index g = Some ix \<and>
            globals.metadata g = documents g \<and>
            ntotal ix = length (documents g) \<and>
            contents (documents g) = Inr texts \<and> length texts = length (documents g) \<and>
            encode L m texts = Inr a \<and> normalize_L2 L a = Inr (vectors ix)"
    using texts a b len_b len_texts
    by (intro exI [of _ m] exI [of _ "\<lparr>dimension = dim, vectors = b\<rparr>"] exI [of _ texts]
        exI [of _ a]) (simp add: g ntotal_def)
  fix request response r
  assume resp: "retrieve_context L g request = Inr response"
    and r: "r \<in> set (results response)"
  from retrieve_results_formatted [OF resp] g obtain ps where
    "format_results get_emigration_documents 0 ps = Inr (results response)" by auto
  from format_results_sound [OF this r] obtain doc where
    doc: "list_getitem get_emigration_documents (document_index (RAGResult.metadata r)) = Inr doc"
    and c: "dict_getitem doc ''content'' = Inr (content r)"
    and s: "source r = (case dict_get doc ''source'' of
                   None \<Rightarrow> ''Document '' @ str_int (document_index (RAGResult.metadata r))
                 | Some s \<Rightarrow> s)"
    and co: "result_metadata.country (RAGResult.metadata r) = dict_get doc ''country''"
    and ca: "result_metadata.category (RAGResult.metadata r) = dict_get doc ''category''"
    by (elim exE conjE)
  from doc have "doc \<in> set get_emigration_documents" by (rule list_getitem_member)
  then obtain src where "dict_get doc ''source'' = Some src"
    using corpus_has_source by blast
  with s have "dict_get doc ''source'' = Some (source r)" by simp
  with doc c co ca
  show "\<exists>doc. list_getitem (documents g) (document_index (RAGResult.metadata r)) = Inr doc \<and>
               dict_getitem doc ''content'' = Inr (content r) \<and>
               dict_get doc ''source'' = Some (source r) \<and>
               dict_get doc ''country'' = result_metadata.country (RAGResult.metadata r) \<and>
               dict_get doc ''category'' = result_metadata.category (RAGResult.metadata r)"
    by (intro exI [of _ doc]) (simp add: g)
next
  fix request response m ix
  assume resp: "retrieve_context L g request = Inr response"
    and m: "embedder g = Some m" and ix: "index g = Some ix"
  from assms(3) have md: "globals.metadata g = documents g"
    by (auto simp: built_def elim!: init_success)
  from resp obtain m' ix' qe qn scores labels s0 l0 where
    "embedder g = Some m'" and "index g = Some ix'"
    and qe: "encode L m' [enhanced_query request] = Inr qe"
    and qn: "normalize_L2 L qe = Inr qn"
    and srch: "search L ix' qn (min (max_results_or_5 request) (int (length (documents g)))) =
           Inr (scores, labels)"
    and s0: "list_getitem scores 0 = Inr s0" and l0: "list_getitem labels 0 = Inr l0"
    and fmt: "format_results (globals.metadata g) 0 (zip s0 l0) = Inr (results response)"
    by (rule retrieve_context_success)
  with m ix have same: "m' = m" "ix' = ix" by simp_all
  from format_results_pairs [OF fmt] md
  have "map (\<lambda>r. (relevance_score r, document_index (RAGResult.metadata r),
                         rank (RAGResult.metadata r))) (results response) =
                 map (\<lambda>(j, s, l). (s, l, j + 1))
                   (filter (\<lambda>(j, s, l). l < int (length (documents g)))
                      (enumerate 0 (zip s0 l0)))"
    by simp
  with qe qn srch s0 l0 same
  show "\<exists>qe qn scores labels s0 l0.
               encode L m [enhanced_query request] = Inr qe \<and>
               normalize_L2 L qe = Inr qn \<and>
               search L ix qn (min (max_results_or_5 request) (int (length (documents g)))) =
                 Inr (scores, labels) \<and>
               list_getitem scores 0 = Inr s0 \<and> list_getitem labels 0 = Inr l0 \<and>
               map (\<lambda>r. (relevance_score r, document_index (RAGResult.metadata r),
                         rank (RAGResult.metadata r))) (results response) =
                 map (\<lambda>(j, s, l). (s, l, j + 1))
                   (filter (\<lambda>(j, s, l). l < int (length (documents g)))
                      (enumerate 0 (zip s0 l0)))"
    by (intro exI [of _ qe] exI [of _ qn] exI [of _ scores] exI [of _ labels]
        exI [of _ s0] exI [of _ l0]) simp
qed

theorem index_alignment_witness:
  "encode_rows toy_libs \<and> normalize_keeps_shape toy_libs \<and>
   built toy_libs (initialize_simple_rag toy_libs initial_globals) \<and>
   (\<exists>response.
      retrieve_context toy_libs (initialize_simple_rag toy_libs initial_globals)
        example_request = Inr response \<and>
      map (\<lambda>r. (relevance_score r, document_index (RAGResult.metadata r),
                rank (RAGResult.metadata r))) (results response) =
        [(37, 6, 1), (33, 0, 2), (29, 4, 3)] \<and>
      (\<forall>r \<in> set (results response).
         \<exists>doc. list_getitem (documents (initialize_simple_rag toy_libs initial_globals))
                 (document_index (RAGResult.metadata r)) = Inr doc \<and>
               dict_getitem doc ''content'' = Inr (content r) \<and>
               dict_get doc ''source'' = Some (source r)))"
proof -
  let ?g = "initialize_simple_rag toy_libs initial_globals"
  let ?ix = "\<lparr>dimension = 2,
      vectors = [[8, 1], [4, 1], [5, 1], [6, 1], [7, 1], [6, 1], [9, 1], [5, 1 :: int]]\<rparr>"
  note aligned = index_alignment [OF toy_encode_rows toy_normalize_keeps_shape toy_built]
  from toy_retrieve_example obtain rs where
    "retrieve_context toy_libs ?g example_request =
       Inr \<lparr>results = rs, query = ''visa requirements'', total_results = 3,
            processing_time_ms = 3\<rparr>"
    by (elim exE conjE)
  then obtain response where
    resp: "retrieve_context toy_libs ?g example_request = Inr response" ..
  have m: "embedder ?g = Some ''all-MiniLM-L6-v2''" and ix: "index ?g = Some ?ix"
    and docs: "length (documents ?g) = 8"
    by (simp_all add: toy_initialized corpus_length)
  from aligned have "\<forall>request response m ix.
      retrieve_context toy_libs ?g request = Inr response \<longrightarrow>
      embedder ?g = Some m \<longrightarrow> index ?g = Some ix \<longrightarrow>
      (\<exists>qe qn scores labels s0 l0.
         encode toy_libs m [enhanced_query request] = Inr qe \<and>
         normalize_L2 toy_libs qe = Inr qn \<and>
         search toy_libs ix qn
           (min (max_results_or_5 request) (int (length (documents ?g)))) =
           Inr (scores, labels) \<and>
         list_getitem scores 0 = Inr s0 \<and> list_getitem labels 0 = Inr l0 \<and>
         map (\<lambda>r. (relevance_score r, document_index (RAGResult.metadata r),
                   rank (RAGResult.metadata r))) (results response) =
           map (\<lambda>(j, s, l). (s, l, j + 1))
             (filter (\<lambda>(j, s, l). l < int (length (documents ?g)))
                (enumerate 0 (zip s0 l0))))"
    by (elim conjE)
  from this [rule_format, OF resp m ix] obtain qe qn scores labels s0 l0 where
    qe: "encode toy_libs ''all-MiniLM-L6-v2'' [enhanced_query example_request] = Inr qe"
    and qn: "normalize_L2 toy_libs qe = Inr qn"
    and srch: "search toy_libs ?ix qn
           (min (max_results_or_5 example_request) (int (length (documents ?g)))) =
           Inr (scores, labels)"
    and s0: "list_getitem scores 0 = Inr s0" and l0: "list_getitem labels 0 = Inr l0"
    and pairs: "map (\<lambda>r. (relevance_score r, document_index (RAGResult.metadata r),
                   rank (RAGResult.metadata r))) (results response) =
           map (\<lambda>(j, s, l). (s, l, j + 1))
             (filter (\<lambda>(j, s, l). l < int (length (documents ?g)))
                (enumerate 0 (zip s0 l0)))"
    by (elim exE conjE)
  from qe have "qe = [[4, 1]]"
    by (simp add: toy_libs_sel example_enhanced toy_embed_def)
  with qn have "qn = [[4, 1]]" by (simp add: toy_libs_sel)
  with srch docs have "scores = [[37, 33, 29]]" and "labels = [[6, 0, 4]]"
    by (simp_all add: toy_libs_sel example_fields toy_search_example)
  with s0 l0 have "s0 = [37, 33, 29]" and "l0 = [6, 0, 4]"
    by (simp_all add: list_getitem_def)
  with pairs docs have shown:
    "map (\<lambda>r. (relevance_score r, document_index (RAGResult.metadata r),
              rank (RAGResult.metadata r))) (results response) =
       [(37, 6, 1), (33, 0, 2), (29, 4, 3)]"
    by (simp add: enumerate_eq_zip upt_rec)
  from aligned have "\<forall>request response r.
      retrieve_context toy_libs ?g request = Inr response \<longrightarrow> r \<in> set (results response) \<longrightarrow>
      (\<exists>doc. list_getitem (documents ?g) (document_index (RAGResult.metadata r)) = Inr doc \<and>
         dict_getitem doc ''content'' = Inr (content r) \<and>
         dict_get doc ''source'' = Some (source r) \<and>
         dict_get doc ''country'' = result_metadata.country (RAGResult.metadata r) \<and>
         dict_get doc ''category'' = result_metadata.category (RAGResult.metadata r))"
    by (elim conjE)
  from this [rule_format, OF resp]
  have "\<forall>r \<in> set (results response).
         \<exists>doc. list_getitem (documents ?g) (document_index (RAGResult.metadata r)) = Inr doc \<and>
               dict_getitem doc ''content'' = Inr (content r) \<and>
               dict_get doc ''source'' = Some (source r)"
    by fast
  with resp shown have "\<exists>response.
      retrieve_context toy_libs ?g example_request = Inr response \<and>
      map (\<lambda>r. (relevance_score r, document_index (RAGResult.metadata r),
                rank (RAGResult.metadata r))) (results response) =
        [(37, 6, 1), (33, 0, 2), (29, 4, 3)] \<and>
      (\<forall>r \<in> set (results response).
         \<exists>doc. list_getitem (documents ?g) (document_index (RAGResult.metadata r)) = Inr doc \<and>
               dict_getitem doc ''content'' = Inr (content r) \<and>
               dict_get doc ''source'' = Some (source r))"
    by (intro exI [of _ response] conjI)
  with toy_encode_rows toy_normalize_keeps_shape toy_built show ?thesis by (intro conjI)
qed

subsection \<open>\<open>max_results\<close> of zero or null\<close>

text \<open>
  Claim C9. Because of \<open>request.max_results or 5\<close>, a request with \<open>max_results = 0\<close>
  and a request with a null \<open>max_results\<close> get exactly the response of the same request
  with \<open>max_results = 5\<close>. On a successfully built engine whose model embeds the query,
  a request with \<open>max_results = 0\<close> is answered with five results (the corpus has eight
  documents), not rejected and not answered with an empty list.
\<close>

theorem max_results_zero_is_default:
  "retrieve_context L g (request\<lparr>max_results := Some 0\<rparr>) =
     retrieve_context L g (request\<lparr>max_results := Some 5\<rparr>) \<and>
   retrieve_context L g (request\<lparr>max_results := None\<rparr>) =
     retrieve_context L g (request\<lparr>max_results := Some 5\<rparr>) \<and>
   (encode_rows L \<and> normalize_keeps_shape L \<and> search_returns_k L \<and> built L g \<and>
    query_embeds L g request \<longrightarrow>
      (\<exists>response. retrieve_context L g (request\<lparr>max_results := Some 0\<rparr>) = Inr response \<and>
         length (results response) = 5))"
proof (intro conjI impI)
  show "retrieve_context L g (request\<lparr>max_results := Some 0\<rparr>) =
     retrieve_context L g (request\<lparr>max_results := Some 5\<rparr>)"
    by (rule retrieve_context_cong) (simp_all add: max_results_or_5_def)
  show "retrieve_context L g (request\<lparr>max_results := None\<rparr>) =
     retrieve_context L g (request\<lparr>max_results := Some 5\<rparr>)"
    by (rule retrieve_context_cong) (simp_all add: max_results_or_5_def)
next
  assume a: "encode_rows L \<and> normalize_keeps_shape L \<and> search_returns_k L \<and> built L g \<and>
    query_embeds L g request"
  let ?r = "request\<lparr>max_results := Some 0\<rparr>"
  from a have "query_embeds L g request" by simp
  then have q: "query_embeds L g ?r"
    unfolding query_embeds_def enhanced_query_max_results .
  have five: "max_results_or_5 ?r = 5" by (simp add: max_results_or_5_def)
  from a have docs: "length (documents g) = 8"
    by (auto simp: built_def corpus_length elim!: init_success)
  from a q five retrieve_count[of L g ?r] docs
  show "\<exists>response. retrieve_context L g ?r = Inr response \<and> length (results response) = 5"
    by auto
qed

theorem max_results_zero_is_default_witness:
  "encode_rows toy_libs \<and> normalize_keeps_shape toy_libs \<and> search_returns_k toy_libs \<and>
   built toy_libs (initialize_simple_rag toy_libs initial_globals) \<and>
   query_embeds toy_libs (initialize_simple_rag toy_libs initial_globals) example_request \<and>
   (\<exists>response.
      retrieve_context toy_libs (initialize_simple_rag toy_libs initial_globals)
        (example_request\<lparr>max_results := Some 0\<rparr>) = Inr response \<and>
      length (results response) = 5)"
  using max_results_zero_is_default
    [of toy_libs "initialize_simple_rag toy_libs initial_globals" example_request]
    toy_encode_rows toy_normalize_keeps_shape toy_search_returns_k toy_built toy_query_embeds
  by blast

subsection \<open>The echoed query\<close>

text \<open>
  Claim C10. The \<open>query\<close> field of every successful response is the caller's original
  query string; the enhanced query is used for the embedding only.
\<close>

theorem response_echoes_original_query:
  "retrieve_context L g request = Inr response \<Longrightarrow>
   RAGResponse.query response = RAGQuery.query request"
  by (auto simp: retrieve_context_def retrieve_body_def Let_def
      split: option.splits sum.splits prod.splits)

theorem response_echoes_original_query_witness:
  "\<exists>response.
     retrieve_context toy_libs (initialize_simple_rag toy_libs initial_globals) example_request =
       Inr response \<and>
     RAGResponse.query response = ''visa requirements'' \<and>
     enhanced_query example_request = ''visa requirements Portugal cost of living''"
proof -
  from toy_retrieve_example obtain rs where
    "retrieve_context toy_libs (initialize_simple_rag toy_libs initial_globals) example_request =
       Inr \<lparr>results = rs, query = ''visa requirements'', total_results = 3,
            processing_time_ms = 3\<rparr>"
    by (elim exE conjE)
  then obtain response where
    r: "retrieve_context toy_libs (initialize_simple_rag toy_libs initial_globals) example_request =
       Inr response" ..
  from response_echoes_original_query [OF r]
  have "RAGResponse.query response = ''visa requirements''"
    by (simp add: example_fields)
  with r example_enhanced show ?thesis by (intro exI [of _ response] conjI)
qed

end
